theory Spec2Isabelle
  imports Main
begin

section \<open>kmod-modinfo: the report of one module's metadata\<close>

text \<open>
  A shallow embedding of \<^verbatim>\<open>src/tools/kmod-modinfo.c\<close>: \<^verbatim>\<open>add_param\<close>, \<^verbatim>\<open>modinfo_do\<close>,
  \<^verbatim>\<open>modinfo_path_do\<close>, \<^verbatim>\<open>modinfo_alias_do\<close> and the loop over the module identifiers
  at the end of \<^verbatim>\<open>main\<close>.

  C strings are \<open>string\<close>s (byte lists, the terminating NUL left out), a pointer that may
  be \<^verbatim>\<open>NULL\<close> is an \<open>option\<close>, and \<^verbatim>\<open>int\<close> is \<open>int\<close>: the only arithmetic of the
  program is on string lengths, taken to fit an \<^verbatim>\<open>int\<close>. The two output streams and the
  number of \<^verbatim>\<open>malloc\<close> calls made so far are the state that is passed along.
\<close>

subsection \<open>Characters and the C library\<close>

text \<open>The bytes \<^verbatim>\<open>'\0'\<close>, \<^verbatim>\<open>'\n'\<close>, the single and the double quote.\<close>

definition NUL :: char where
  "NUL = CHR 0x00"

definition NL :: char where
  "NL = CHR 0x0A"

definition SQ :: char where
  "SQ = CHR 0x27"

definition DQ :: char where
  "DQ = CHR 0x22"

definition EXIT_SUCCESS :: int where
  "EXIT_SUCCESS = 0"

definition EXIT_FAILURE :: int where
  "EXIT_FAILURE = 1"

text \<open>\<^verbatim>\<open>strchr(s, c)\<close> for a character other than NUL: the offset of the first \<open>c\<close>, or \<^verbatim>\<open>NULL\<close>.\<close>

fun strchr :: "string \<Rightarrow> char \<Rightarrow> nat option" where
  "strchr [] c = None"
| "strchr (x # s) c = (if x = c then Some 0 else map_option Suc (strchr s c))"

text \<open>\<^verbatim>\<open>strlen\<close>, stored into an \<^verbatim>\<open>int\<close>.\<close>

definition strlen :: "string \<Rightarrow> int" where
  "strlen s = int (length s)"

text \<open>
  The conversions of \<^verbatim>\<open>printf\<close> the program uses. \<^verbatim>\<open>%-16s\<close> pads on the right up to
  the field width. In \<^verbatim>\<open>%-*s\<close> the width is an \<^verbatim>\<open>int\<close> argument, and a negative one is
  read as the \<^verbatim>\<open>-\<close> flag followed by its absolute value. In \<^verbatim>\<open>%.*s\<close> the precision is an
  \<^verbatim>\<open>int\<close> argument bounding the bytes written; a negative one is no bound.
\<close>

definition fmt_left :: "nat \<Rightarrow> string \<Rightarrow> string" where
  "fmt_left width s = s @ replicate (width - length s) CHR '' ''"

definition fmt_left_star :: "int \<Rightarrow> string \<Rightarrow> string" where
  "fmt_left_star width s = fmt_left (nat \<bar>width\<bar>) s"

definition fmt_prec :: "int \<Rightarrow> string \<Rightarrow> string" where
  "fmt_prec prec s = (if prec < 0 then s else take (nat prec) s)"

text \<open>
  A \<^verbatim>\<open>NULL\<close> string under \<^verbatim>\<open>%.*s\<close>: the program passes one only together with the
  precision 0, which writes nothing.
\<close>

definition fmt_prec_ptr :: "int \<Rightarrow> string option \<Rightarrow> string" where
  "fmt_prec_ptr prec p = (case p of None \<Rightarrow> [] | Some s \<Rightarrow> fmt_prec prec s)"

subsection \<open>The process state\<close>

record world =
  stdout :: string
  stderr :: string
  mallocs :: nat

definition printf :: "string \<Rightarrow> world \<Rightarrow> world" where
  "printf s w = w\<lparr>stdout := stdout w @ s\<rparr>"

text \<open>\<^verbatim>\<open>#define LOG(fmt, ...) fprintf(stderr, "ERROR: "fmt, ##__VA_ARGS__)\<close>\<close>

definition LOG :: "string \<Rightarrow> world \<Rightarrow> world" where
  "LOG s w = w\<lparr>stderr := stderr w @ ''ERROR: '' @ s\<rparr>"

text \<open>
  The globals \<^verbatim>\<open>separator\<close> and \<^verbatim>\<open>field\<close>, set once by the option parser before any
  module is processed.
\<close>

record config =
  separator :: char
  field :: "string option"

text \<open>
  What the program takes from libkmod and the C library. A \<^verbatim>\<open>struct kmod_module\<close> is
  opaque to the program: it is the results of the three accessors called on it, the path
  and the name taken to be strings (not \<^verbatim>\<open>NULL\<close>). \<^verbatim>\<open>kmod_module_get_info\<close> returns a
  negative errno or a non-negative count, and the list of (key, value) pairs.
\<close>

record kmod_module =
  kmod_module_get_path :: string
  kmod_module_get_name :: string
  kmod_module_get_info :: "int \<times> (string \<times> string) list"

text \<open>
  \<open>malloc_ok n\<close> tells whether the call of \<^verbatim>\<open>malloc\<close> made after \<open>n\<close> earlier ones
  succeeds. \<open>is_regular_file\<close> is \<^verbatim>\<open>stat(name, &st) == 0 && S_ISREG(st.st_mode)\<close>.
\<close>

record env =
  malloc_ok :: "nat \<Rightarrow> bool"
  strerror :: "int \<Rightarrow> string"
  is_regular_file :: "string \<Rightarrow> bool"
  kmod_module_new_from_path :: "string \<Rightarrow> int \<times> kmod_module"
  kmod_module_new_from_lookup :: "string \<Rightarrow> int \<times> kmod_module list"

subsection \<open>The parameter list\<close>

text \<open>
  \<^verbatim>\<open>struct param\<close>. The \<^verbatim>\<open>next\<close> pointer is the tail of a HOL list whose head is
  \<^verbatim>\<open>*list\<close>. \<open>name\<close> points at the whole value of the record the entry was made from;
  the parameter's name is its first \<open>namelen\<close> bytes.
\<close>

record param =
  name :: string
  param :: "string option"
  type :: "string option"
  namelen :: int
  paramlen :: int
  typelen :: int

text \<open>The test of the search loop: equal lengths and \<^verbatim>\<open>memcmp\<close> over \<open>namelen\<close> bytes.\<close>

definition name_matches :: "string \<Rightarrow> int \<Rightarrow> param \<Rightarrow> bool" where
  "name_matches nm nlen it \<longleftrightarrow>
     namelen it = nlen \<and> take (nat nlen) (name it) = take (nat nlen) nm"

text \<open>The two assignments at the end of \<^verbatim>\<open>add_param\<close>, on the entry \<open>it\<close>.\<close>

definition set_fields :: "string option \<Rightarrow> int \<Rightarrow> string option \<Rightarrow> int \<Rightarrow> param \<Rightarrow> param" where
  "set_fields prm plen ty tlen it =
     (let it1 = (case prm of None \<Rightarrow> it | Some p \<Rightarrow> it\<lparr>param := Some p, paramlen := plen\<rparr>)
      in case ty of None \<Rightarrow> it1 | Some t \<Rightarrow> it1\<lparr>type := Some t, typelen := tlen\<rparr>)"

text \<open>
  The search loop together with the in-place update of the entry it stops at: the first
  entry that matches is updated; \<open>None\<close> when the loop runs off the end of the list.
\<close>

fun update_found :: "string \<Rightarrow> int \<Rightarrow> (param \<Rightarrow> param) \<Rightarrow> param list \<Rightarrow> param list option" where
  "update_found nm nlen f [] = None"
| "update_found nm nlen f (it # rest) =
     (if name_matches nm nlen it then Some (f it # rest)
      else map_option ((#) it) (update_found nm nlen f rest))"

text \<open>
  \<^verbatim>\<open>add_param\<close>. The result is the list after the call, or \<open>None\<close> where the C function
  returns \<^verbatim>\<open>NULL\<close> (the caller only tests the returned pointer against \<^verbatim>\<open>NULL\<close>).
  A new entry is linked in front of the list.
\<close>

definition add_param ::
  "env \<Rightarrow> string \<Rightarrow> int \<Rightarrow> string option \<Rightarrow> int \<Rightarrow> string option \<Rightarrow> int \<Rightarrow> param list \<Rightarrow> world
     \<Rightarrow> param list option \<times> world" where
  "add_param e nm nlen prm plen ty tlen lst w =
     (case update_found nm nlen (set_fields prm plen ty tlen) lst of
        Some lst' \<Rightarrow> (Some lst', w)
      | None \<Rightarrow>
          if \<not> malloc_ok e (mallocs w) then (None, w\<lparr>mallocs := Suc (mallocs w)\<rparr>)
          else (Some (set_fields prm plen ty tlen
                        \<lparr>name = nm, param = None, type = None,
                         namelen = nlen, paramlen = 0, typelen = 0\<rparr> # lst),
                w\<lparr>mallocs := Suc (mallocs w)\<rparr>))"

subsection \<open>The report of one module\<close>

text \<open>
  The body of \<^verbatim>\<open>kmod_list_foreach\<close> in \<^verbatim>\<open>modinfo_do\<close>, over the remaining pairs. The
  Boolean of the result is \<open>False\<close> when the loop was left by \<^verbatim>\<open>goto end\<close>.
\<close>

fun info_loop ::
  "config \<Rightarrow> env \<Rightarrow> (string \<times> string) list \<Rightarrow> param list \<Rightarrow> world \<Rightarrow> bool \<times> param list \<times> world" where
  "info_loop cfg e [] params w = (True, params, w)"
| "info_loop cfg e ((key, val) # l) params w =
     (case field cfg of
        Some f \<Rightarrow>
          if f \<noteq> key then info_loop cfg e l params w
          else info_loop cfg e l params (printf (val @ [separator cfg]) w)
      | None \<Rightarrow>
          if key = ''parm'' \<or> key = ''parmtype'' then
            (case strchr val CHR '':'' of
               None \<Rightarrow>
                 info_loop cfg e l params
                   (LOG (''Found invalid '' @ [DQ] @ key @ ''='' @ val @ [DQ] @ '': missing ''
                          @ [SQ] @ '':'' @ [SQ, NL]) w)
             | Some colon \<Rightarrow>
                 (let nlen = int colon;
                      (prm, plen, ty, tlen) =
                        (if key = ''param''
                         then (Some (drop (colon + 1) val), strlen (drop (colon + 1) val), None, 0)
                         else (None, 0, Some (drop (colon + 1) val), strlen (drop (colon + 1) val)))
                  in case add_param e val nlen prm plen ty tlen params w of
                       (None, w') \<Rightarrow> (False, params, LOG (''Out of memory!'' @ [NL]) w')
                     | (Some params', w') \<Rightarrow> info_loop cfg e l params' w'))
          else if separator cfg = NUL then
            info_loop cfg e l params (printf (key @ ''='' @ val @ [separator cfg]) w)
          else
            info_loop cfg e l params
              (printf (key @ '':'' @ fmt_left_star (15 - strlen key) [] @ val @ [separator cfg]) w))"

text \<open>One round of the \<^verbatim>\<open>while (params != NULL)\<close> loop that prints the list: the line of \<open>p\<close>.\<close>

definition param_line :: "char \<Rightarrow> param \<Rightarrow> string" where
  "param_line sep p =
     (case param p of
        None \<Rightarrow>
          fmt_left 16 ''parm:'' @ fmt_prec (namelen p) (name p) @ '':''
            @ fmt_prec_ptr (typelen p) (type p) @ [sep]
      | Some d \<Rightarrow>
          (case type p of
             Some t \<Rightarrow>
               fmt_left 16 ''parm:'' @ fmt_prec (namelen p) (name p) @ fmt_prec (paramlen p) d
                 @ '' ('' @ fmt_prec (typelen p) t @ '')'' @ [sep]
           | None \<Rightarrow>
               fmt_left 16 ''parm:'' @ fmt_prec (namelen p) (name p) @ fmt_prec (paramlen p) d
                 @ [sep]))"

fun print_params :: "char \<Rightarrow> param list \<Rightarrow> world \<Rightarrow> world" where
  "print_params sep [] w = w"
| "print_params sep (p # params) w = print_params sep params (printf (param_line sep p) w)"

text \<open>
  \<^verbatim>\<open>modinfo_do\<close>: the returned \<^verbatim>\<open>int\<close> and the state after the call. Freeing the list at
  \<^verbatim>\<open>end\<close> has no effect on what is observed.
\<close>

definition modinfo_do :: "config \<Rightarrow> env \<Rightarrow> kmod_module \<Rightarrow> world \<Rightarrow> int \<times> world" where
  "modinfo_do cfg e m w =
     (if field cfg = Some ''filename'' then
        (0, printf (kmod_module_get_path m @ [separator cfg]) w)
      else
        (let w1 = (if field cfg = None
                   then printf (fmt_left 16 ''filename:'' @ kmod_module_get_path m @ [separator cfg]) w
                   else w);
             (err, lst) = kmod_module_get_info m
         in if err < 0 then
              (err, LOG (''Could not get modinfo from '' @ [SQ] @ kmod_module_get_name m @ [SQ]
                           @ '': '' @ strerror e (- err) @ [NL]) w1)
            else
              (case info_loop cfg e lst [] w1 of
                 (False, params, w2) \<Rightarrow> (err, w2)
               | (True, params, w2) \<Rightarrow>
                   if field cfg \<noteq> None then (err, w2)
                   else (err, print_params (separator cfg) params w2))))"

subsection \<open>Module identifiers\<close>

definition modinfo_path_do :: "config \<Rightarrow> env \<Rightarrow> string \<Rightarrow> world \<Rightarrow> int \<times> world" where
  "modinfo_path_do cfg e path w =
     (let (err, m) = kmod_module_new_from_path e path
      in if err < 0 then (err, LOG (''Module file '' @ path @ '' not found.'' @ [NL]) w)
         else modinfo_do cfg e m w)"

text \<open>The \<^verbatim>\<open>kmod_list_foreach\<close> of \<^verbatim>\<open>modinfo_alias_do\<close>, with \<open>err\<close> as it stands.\<close>

fun alias_loop :: "config \<Rightarrow> env \<Rightarrow> kmod_module list \<Rightarrow> int \<Rightarrow> world \<Rightarrow> int \<times> world" where
  "alias_loop cfg e [] err w = (err, w)"
| "alias_loop cfg e (m # l) err w =
     (let (r, w') = modinfo_do cfg e m w
      in alias_loop cfg e l (if r < 0 then r else err) w')"

definition modinfo_alias_do :: "config \<Rightarrow> env \<Rightarrow> string \<Rightarrow> world \<Rightarrow> int \<times> world" where
  "modinfo_alias_do cfg e alias w =
     (let (err, lst) = kmod_module_new_from_lookup e alias
      in if err < 0 then (err, LOG (''Module alias '' @ alias @ '' not found.'' @ [NL]) w)
         else alias_loop cfg e lst err w)"

text \<open>The \<^verbatim>\<open>for (i = optind; i < argc; i++)\<close> loop of \<^verbatim>\<open>main\<close>, with \<open>err\<close> as it stands.\<close>

fun args_loop :: "config \<Rightarrow> env \<Rightarrow> string list \<Rightarrow> int \<Rightarrow> world \<Rightarrow> int \<times> world" where
  "args_loop cfg e [] err w = (err, w)"
| "args_loop cfg e (nm # args) err w =
     (let (r, w') = (if is_regular_file e nm then modinfo_path_do cfg e nm w
                     else modinfo_alias_do cfg e nm w)
      in args_loop cfg e args (if r < 0 then r else err) w')"

text \<open>
  \<^verbatim>\<open>main\<close> from \<^verbatim>\<open>err = 0\<close> on: the exit status and the final state, for the configuration
  the options gave and the identifiers \<^verbatim>\<open>argv[optind..]\<close>.
\<close>

definition main_modules :: "config \<Rightarrow> env \<Rightarrow> string list \<Rightarrow> world \<Rightarrow> int \<times> world" where
  "main_modules cfg e args w =
     (let (err, w') = args_loop cfg e args 0 w
      in (if err \<ge> 0 then EXIT_SUCCESS else EXIT_FAILURE, w'))"

subsection \<open>Notions the properties are stated with\<close>

text \<open>The name of an entry: the first \<open>namelen\<close> bytes of what \<open>name\<close> points at.\<close>

definition param_name :: "param \<Rightarrow> string" where
  "param_name p = take (nat (namelen p)) (name p)"

text \<open>An entry whose \<open>namelen\<close> is a length within the string \<open>name\<close> points at.\<close>

definition wf_param :: "param \<Rightarrow> bool" where
  "wf_param p \<longleftrightarrow> 0 \<le> namelen p \<and> nat (namelen p) \<le> length (name p)"

text \<open>A record of a parameter: the key is \<^verbatim>\<open>parm\<close> or \<^verbatim>\<open>parmtype\<close>.\<close>

definition is_parm_key :: "string \<Rightarrow> bool" where
  "is_parm_key key \<longleftrightarrow> key = ''parm'' \<or> key = ''parmtype''"

text \<open>
  The parameter names of the well-formed parameter records of a sequence of pairs, one
  for each such record, in source order: the bytes before the first colon.
\<close>

definition parm_names :: "(string \<times> string) list \<Rightarrow> string list" where
  "parm_names l =
     map (\<lambda>kv. takeWhile (\<lambda>c. c \<noteq> CHR '':'') (snd kv))
       (filter (\<lambda>kv. is_parm_key (fst kv) \<and> CHR '':'' \<in> set (snd kv)) l)"

text \<open>First-seen order: each element once, at the place of its first occurrence.\<close>

fun first_seen :: "'a list \<Rightarrow> 'a list" where
  "first_seen [] = []"
| "first_seen (x # xs) = x # filter (\<lambda>y. y \<noteq> x) (first_seen xs)"

text \<open>The values of the pairs with a given key, in source order.\<close>

definition values_of_key :: "string \<Rightarrow> (string \<times> string) list \<Rightarrow> string list" where
  "values_of_key key l = map snd (filter (\<lambda>kv. fst kv = key) l)"

text \<open>Each string followed by the separator.\<close>

definition terminated :: "char \<Rightarrow> string list \<Rightarrow> string" where
  "terminated sep vs = concat (map (\<lambda>v. v @ [sep]) vs)"

text \<open>
  The two shapes of a line with a key, as the specification names them:
  \<^verbatim>\<open>key=value\<close>, and the key with a colon padded with blanks to 16 columns.
\<close>

definition key_eq_line :: "char \<Rightarrow> string \<times> string \<Rightarrow> string" where
  "key_eq_line sep kv = fst kv @ ''='' @ snd kv @ [sep]"

definition colon_padded_line :: "char \<Rightarrow> string \<times> string \<Rightarrow> string" where
  "colon_padded_line sep kv =
     fst kv @ '':'' @ replicate (15 - length (fst kv)) CHR '' '' @ snd kv @ [sep]"

text \<open>The pairs that are not parameter records.\<close>

definition plain_pairs :: "(string \<times> string) list \<Rightarrow> (string \<times> string) list" where
  "plain_pairs l = filter (\<lambda>kv. \<not> is_parm_key (fst kv)) l"

text \<open>
  The ways an identifier can fail. Metadata retrieval fails when
  \<^verbatim>\<open>kmod_module_get_info\<close> is called and returns a negative value; an identifier fails
  when its resolution returns a negative value or retrieval fails for a module it
  resolved to.
\<close>

definition retrieval_fails :: "config \<Rightarrow> kmod_module \<Rightarrow> bool" where
  "retrieval_fails cfg m \<longleftrightarrow>
     field cfg \<noteq> Some ''filename'' \<and> fst (kmod_module_get_info m) < 0"

definition resolution_fails :: "env \<Rightarrow> string \<Rightarrow> bool" where
  "resolution_fails e nm \<longleftrightarrow>
     (if is_regular_file e nm then fst (kmod_module_new_from_path e nm) < 0
      else fst (kmod_module_new_from_lookup e nm) < 0)"

definition resolved_modules :: "env \<Rightarrow> string \<Rightarrow> kmod_module list" where
  "resolved_modules e nm =
     (if is_regular_file e nm then [snd (kmod_module_new_from_path e nm)]
      else snd (kmod_module_new_from_lookup e nm))"

definition identifier_fails :: "config \<Rightarrow> env \<Rightarrow> string \<Rightarrow> bool" where
  "identifier_fails cfg e nm \<longleftrightarrow>
     resolution_fails e nm \<or> list_ex (retrieval_fails cfg) (resolved_modules e nm)"

text \<open>
  The line the loop of \<^verbatim>\<open>modinfo_do\<close> writes in default mode for a pair that is not a
  parameter record.
\<close>

definition plain_line :: "config \<Rightarrow> string \<times> string \<Rightarrow> string" where
  "plain_line cfg kv =
     (if separator cfg = NUL then fst kv @ ''='' @ snd kv @ [separator cfg]
      else fst kv @ '':'' @ fmt_left_star (15 - strlen (fst kv)) [] @ snd kv @ [separator cfg])"

text \<open>What one call of \<^verbatim>\<open>add_param\<close> does to the names of the list, head first.\<close>

definition add_name :: "string \<Rightarrow> string list \<Rightarrow> string list" where
  "add_name n ns = (if n \<in> set ns then ns else n # ns)"

text \<open>
  The diagnostic the loop of \<^verbatim>\<open>modinfo_do\<close> leaves on the error stream for a parameter
  record without a colon, and the records of a sequence that get one.
\<close>

definition malformed_line :: "string \<times> string \<Rightarrow> string" where
  "malformed_line kv =
     ''ERROR: Found invalid '' @ [DQ] @ fst kv @ ''='' @ snd kv @ [DQ] @ '': missing ''
       @ [SQ] @ '':'' @ [SQ, NL]"

definition malformed_pairs :: "(string \<times> string) list \<Rightarrow> (string \<times> string) list" where
  "malformed_pairs l = filter (\<lambda>kv. is_parm_key (fst kv) \<and> CHR '':'' \<notin> set (snd kv)) l"

text \<open>The parameter list the loop of \<^verbatim>\<open>modinfo_do\<close> ends with, started on the empty list.\<close>

definition params_after :: "config \<Rightarrow> env \<Rightarrow> (string \<times> string) list \<Rightarrow> world \<Rightarrow> param list" where
  "params_after cfg e l w = fst (snd (info_loop cfg e l [] w))"

subsection \<open>Example inputs\<close>

definition empty_world :: world where
  "empty_world = \<lparr>stdout = [], stderr = [], mallocs = 0\<rparr>"

text \<open>The module of the specification's example.\<close>

definition foo_ko :: kmod_module where
  "foo_ko =
     \<lparr>kmod_module_get_path = ''/lib/modules/x/foo.ko'',
      kmod_module_get_name = ''foo'',
      kmod_module_get_info =
        (3, [(''author'', ''A. One''), (''parm'', ''debug:enable debug''),
             (''parmtype'', ''debug:bool'')])\<rparr>"

text \<open>The same module with the two parameter records in the other order.\<close>

definition foo_swapped_ko :: kmod_module where
  "foo_swapped_ko =
     foo_ko\<lparr>kmod_module_get_info :=
        (3, [(''author'', ''A. One''), (''parmtype'', ''debug:bool''),
             (''parm'', ''debug:enable debug'')])\<rparr>"

text \<open>
  A module with two parameters, a module with a malformed record, a module with pairs of
  every kind, and one whose metadata cannot be read (\<^verbatim>\<open>-ENOENT\<close>).
\<close>

definition two_ko :: kmod_module where
  "two_ko =
     \<lparr>kmod_module_get_path = ''/two.ko'',
      kmod_module_get_name = ''two'',
      kmod_module_get_info = (2, [(''parmtype'', ''a:int''), (''parmtype'', ''b:int'')])\<rparr>"

definition bad_ko :: kmod_module where
  "bad_ko =
     \<lparr>kmod_module_get_path = ''/bad.ko'',
      kmod_module_get_name = ''bad'',
      kmod_module_get_info = (1, [(''parm'', ''bad-no-colon'')])\<rparr>"

definition multi_ko :: kmod_module where
  "multi_ko =
     \<lparr>kmod_module_get_path = ''/multi.ko'',
      kmod_module_get_name = ''multi'',
      kmod_module_get_info =
        (7, [(''license'', ''GPL''), (''parmtype'', ''a:int''), (''depends'', ''x''),
             (''parm'', ''b:desc''), (''parm'', ''nocolon''), (''parmtype'', ''b:uint''),
             (''depends'', ''y'')])\<rparr>"

definition broken_ko :: kmod_module where
  "broken_ko =
     \<lparr>kmod_module_get_path = ''/broken.ko'',
      kmod_module_get_name = ''broken'',
      kmod_module_get_info = (- 2, [])\<rparr>"

text \<open>
  A system where \<^verbatim>\<open>malloc\<close> always succeeds, \<^verbatim>\<open>/lib/modules/x/foo.ko\<close> is the only
  regular file, and the aliases \<^verbatim>\<open>bad\<close>, \<^verbatim>\<open>two\<close> and \<^verbatim>\<open>broken\<close> resolve to the modules
  above; every other lookup fails with \<^verbatim>\<open>-ENOENT\<close>.
\<close>

definition example_env :: env where
  "example_env =
     \<lparr>malloc_ok = (\<lambda>n. True),
      strerror = (\<lambda>n. ''No such file or directory''),
      is_regular_file = (\<lambda>nm. nm = ''/lib/modules/x/foo.ko''),
      kmod_module_new_from_path = (\<lambda>path. (0, foo_ko)),
      kmod_module_new_from_lookup =
        (\<lambda>alias. if alias = ''bad'' then (0, [bad_ko])
                  else if alias = ''two'' then (0, [two_ko])
                  else if alias = ''broken'' then (0, [broken_ko])
                  else (- 2, []))\<rparr>"

text \<open>The same system with no memory left: every \<^verbatim>\<open>malloc\<close> fails.\<close>

definition no_memory_env :: env where
  "no_memory_env = example_env\<lparr>malloc_ok := (\<lambda>n. False)\<rparr>"

definition default_nl :: config where
  "default_nl = \<lparr>separator = NL, field = None\<rparr>"

definition default_nul :: config where
  "default_nul = \<lparr>separator = NUL, field = None\<rparr>"

definition only_filename :: config where
  "only_filename = \<lparr>separator = NL, field = Some ''filename''\<rparr>"

definition only_parm :: config where
  "only_parm = \<lparr>separator = NL, field = Some ''parm''\<rparr>"

definition only_author :: config where
  "only_author = \<lparr>separator = NL, field = Some ''author''\<rparr>"

section \<open>Properties\<close>

subsection \<open>The output streams\<close>

lemma stdout_printf [simp]: "stdout (printf s w) = stdout w @ s"
  by (simp add: printf_def)

lemma stderr_printf [simp]: "stderr (printf s w) = stderr w"
  by (simp add: printf_def)

lemma mallocs_printf [simp]: "mallocs (printf s w) = mallocs w"
  by (simp add: printf_def)

lemma stdout_LOG [simp]: "stdout (LOG s w) = stdout w"
  by (simp add: LOG_def)

lemma stderr_LOG [simp]: "stderr (LOG s w) = stderr w @ ''ERROR: '' @ s"
  by (simp add: LOG_def)

lemma mallocs_LOG [simp]: "mallocs (LOG s w) = mallocs w"
  by (simp add: LOG_def)

lemma printf_Nil [simp]: "printf [] w = w"
  by (simp add: printf_def)

lemma printf_printf: "printf t (printf s w) = printf (s @ t) w"
  by (simp add: printf_def)

lemma terminated_Nil [simp]: "terminated sep [] = []"
  by (simp add: terminated_def)

lemma terminated_Cons [simp]: "terminated sep (v # vs) = v @ sep # terminated sep vs"
  by (simp add: terminated_def)

lemma values_of_key_Nil [simp]: "values_of_key f [] = []"
  by (simp add: values_of_key_def)

lemma values_of_key_Cons [simp]:
  "values_of_key f ((k, v) # l) = (if k = f then v # values_of_key f l else values_of_key f l)"
  by (simp add: values_of_key_def)

lemma print_params_eq:
  "print_params sep params w = printf (concat (map (param_line sep) params)) w"
  by (induction params arbitrary: w) (simp_all add: printf_printf)

subsection \<open>Filtered mode\<close>

text \<open>
  With a field filter the loop writes the value of every pair whose key is the filter,
  and touches neither the parameter list nor the error stream.
\<close>

lemma info_loop_filtered:
  "field cfg = Some f \<Longrightarrow>
   info_loop cfg e l params w =
     (True, params, printf (terminated (separator cfg) (values_of_key f l)) w)"
proof (induction l arbitrary: w)
  case Nil
  then show ?case by simp
next
  case (Cons kv l)
  obtain k v where kv: "kv = (k, v)" by (cases kv)
  show ?case
    using Cons.prems by (auto simp add: kv Cons.IH printf_printf)
qed

lemma modinfo_do_filtered:
  assumes "field cfg = Some f" and "f \<noteq> ''filename''"
    and "kmod_module_get_info m = (err, l)" and "0 \<le> err"
  shows "modinfo_do cfg e m w = (err, printf (terminated (separator cfg) (values_of_key f l)) w)"
  using assms by (simp add: modinfo_do_def info_loop_filtered)

text \<open>
  C8. In filtered mode with the filter \<^verbatim>\<open>filename\<close>, \<^verbatim>\<open>modinfo_do\<close> writes one line, the
  module's path followed by the separator, and returns 0; it writes nothing to the error
  stream, allocates nothing, and the pairs of the module play no part.
\<close>

theorem filename_filter_one_line:
  "field cfg = Some ''filename'' \<Longrightarrow>
   modinfo_do cfg e m w =
     (0, w\<lparr>stdout := stdout w @ kmod_module_get_path m @ [separator cfg]\<rparr>)"
  by (simp add: modinfo_do_def printf_def)

theorem filename_filter_one_line_witness:
  "field only_filename = Some ''filename'' \<and>
   modinfo_do only_filename example_env foo_ko empty_world =
     (0, \<lparr>stdout = ''/lib/modules/x/foo.ko'' @ [NL], stderr = [], mallocs = 0\<rparr>)"
  using filename_filter_one_line [of only_filename example_env foo_ko empty_world]
  by (simp add: only_filename_def foo_ko_def empty_world_def)

text \<open>
  C7. In filtered mode with a filter other than \<^verbatim>\<open>filename\<close>, for a module whose pairs
  were retrieved, the output is the values of the pairs whose key equals the filter, in
  source order, each followed by the separator, with no key in front. The error stream
  is left as it was and the result is the non-negative value retrieval returned. When no
  pair has the key, nothing at all is written.
\<close>

theorem filtered_bare_values:
  assumes "field cfg = Some f" and "f \<noteq> ''filename''"
    and "kmod_module_get_info m = (err, l)" and "0 \<le> err"
  shows "modinfo_do cfg e m w =
           (err, w\<lparr>stdout := stdout w @ terminated (separator cfg) (values_of_key f l)\<rparr>)
         \<and> (f \<notin> fst ` set l \<longrightarrow> modinfo_do cfg e m w = (err, w))"
proof -
  have "f \<notin> fst ` set l \<Longrightarrow> values_of_key f l = []"
    by (auto simp add: values_of_key_def filter_empty_conv)
  with modinfo_do_filtered [OF assms] show ?thesis
    by (auto simp add: printf_def)
qed

theorem filtered_bare_values_witness:
  "field only_author = Some ''author'' \<and> ''author'' \<noteq> ''filename''
   \<and> kmod_module_get_info foo_ko =
       (3, [(''author'', ''A. One''), (''parm'', ''debug:enable debug''),
            (''parmtype'', ''debug:bool'')])
   \<and> modinfo_do only_author example_env foo_ko empty_world =
       (3, \<lparr>stdout = ''A. One'' @ [NL], stderr = [], mallocs = 0\<rparr>)
   \<and> modinfo_do (only_author\<lparr>field := Some ''license''\<rparr>) example_env foo_ko empty_world =
       (3, empty_world)"
  using filtered_bare_values [of only_author "''author''" foo_ko 3
      "[(''author'', ''A. One''), (''parm'', ''debug:enable debug''),
        (''parmtype'', ''debug:bool'')]" example_env empty_world]
    filtered_bare_values [of "only_author\<lparr>field := Some ''license''\<rparr>" "''license''" foo_ko 3
      "[(''author'', ''A. One''), (''parm'', ''debug:enable debug''),
        (''parmtype'', ''debug:bool'')]" example_env empty_world]
  by (simp add: only_author_def foo_ko_def empty_world_def)

text \<open>
  C10. In filtered mode with the filter \<^verbatim>\<open>parm\<close> or \<^verbatim>\<open>parmtype\<close>, the loop leaves the
  parameter list empty (nothing is merged), and the output is the whole value of every
  pair with that key, name and colon included, in source order, each followed by the
  separator. Nothing is written to the error stream, whether or not a value has a colon,
  and nothing is allocated.
\<close>

theorem parm_filter_verbatim:
  assumes "field cfg = Some f" and "is_parm_key f"
    and "kmod_module_get_info m = (err, l)" and "0 \<le> err"
  shows "fst (snd (info_loop cfg e l [] w)) = []
         \<and> stdout (snd (modinfo_do cfg e m w)) =
             stdout w @ terminated (separator cfg) (values_of_key f l)
         \<and> stderr (snd (modinfo_do cfg e m w)) = stderr w
         \<and> mallocs (snd (modinfo_do cfg e m w)) = mallocs w"
proof -
  from assms(2) have "f \<noteq> ''filename''"
    by (auto simp add: is_parm_key_def)
  from modinfo_do_filtered [OF assms(1) this assms(3,4)] info_loop_filtered [OF assms(1)]
  show ?thesis by simp
qed

theorem parm_filter_verbatim_witness:
  "field only_parm = Some ''parm'' \<and> is_parm_key ''parm''
   \<and> kmod_module_get_info bad_ko = (1, [(''parm'', ''bad-no-colon'')])
   \<and> stdout (snd (modinfo_do only_parm example_env bad_ko empty_world)) = ''bad-no-colon'' @ [NL]
   \<and> stderr (snd (modinfo_do only_parm example_env bad_ko empty_world)) = []
   \<and> mallocs (snd (modinfo_do only_parm example_env bad_ko empty_world)) = 0"
  using parm_filter_verbatim [of only_parm "''parm''" bad_ko 1 "[(''parm'', ''bad-no-colon'')]"
      example_env empty_world]
  by (simp add: only_parm_def bad_ko_def empty_world_def is_parm_key_def)

subsection \<open>Default mode: the parameter list\<close>

lemma replicate_numeral [simp]: "replicate (numeral k) x = x # replicate (pred_numeral k) x"
  by (simp add: numeral_eq_Suc)

lemma strchr_None: "strchr s c = None \<longleftrightarrow> c \<notin> set s"
  by (induction s) auto

lemma strchr_Some:
  "strchr s c = Some i \<Longrightarrow> i < length s \<and> take i s = takeWhile (\<lambda>x. x \<noteq> c) s \<and> c \<in> set s"
  by (induction s arbitrary: i) (auto split: if_splits)

text \<open>On well-formed entries the test of the search loop is equality of names.\<close>

lemma name_matches_iff:
  "wf_param it \<Longrightarrow> i \<le> length v \<Longrightarrow> name_matches v (int i) it \<longleftrightarrow> param_name it = take i v"
proof
  assume wf: "wf_param it" and i: "i \<le> length v"
  {
    assume "name_matches v (int i) it"
    then show "param_name it = take i v"
      by (simp add: name_matches_def param_name_def)
  next
    assume eq: "param_name it = take i v"
    from wf have "length (param_name it) = nat (namelen it)"
      by (simp add: wf_param_def param_name_def)
    moreover from i have "length (take i v) = i" by simp
    ultimately have "nat (namelen it) = i" using eq by simp
    with wf have "namelen it = int i" by (auto simp add: wf_param_def)
    with eq show "name_matches v (int i) it"
      by (simp add: name_matches_def param_name_def)
  }
qed

lemma set_fields_name [simp]: "name (set_fields prm plen ty tlen it) = name it"
  by (simp add: set_fields_def Let_def split: option.splits)

lemma set_fields_namelen [simp]: "namelen (set_fields prm plen ty tlen it) = namelen it"
  by (simp add: set_fields_def Let_def split: option.splits)

lemma set_fields_param_name [simp]: "param_name (set_fields prm plen ty tlen it) = param_name it"
  by (simp add: param_name_def)

lemma set_fields_wf [simp]: "wf_param (set_fields prm plen ty tlen it) = wf_param it"
  by (simp add: wf_param_def)

lemma set_fields_None_param [simp]: "param (set_fields None plen ty tlen it) = param it"
  by (simp add: set_fields_def split: option.splits)

lemma update_found_None:
  "list_all wf_param ps \<Longrightarrow> i \<le> length v \<Longrightarrow>
   update_found v (int i) f ps = None \<longleftrightarrow> take i v \<notin> set (map param_name ps)"
  by (induction ps) (auto simp add: name_matches_iff)

lemma update_found_Some:
  "update_found v n (set_fields prm plen ty tlen) ps = Some ps' \<Longrightarrow>
   map param_name ps' = map param_name ps \<and> list_all wf_param ps' = list_all wf_param ps"
  by (induction ps arbitrary: ps') (auto split: if_splits)

text \<open>
  When \<^verbatim>\<open>malloc\<close> succeeds, \<^verbatim>\<open>add_param\<close> leaves the names as they are if the name is
  in the list, and puts the name in front otherwise.
\<close>

lemma add_param_names:
  assumes "malloc_ok e (mallocs w)" and "list_all wf_param ps" and "i \<le> length v"
  shows "\<exists>ps' w'. add_param e v (int i) prm plen ty tlen ps w = (Some ps', w')
           \<and> list_all wf_param ps'
           \<and> map param_name ps' = add_name (take i v) (map param_name ps)
           \<and> stdout w' = stdout w \<and> stderr w' = stderr w"
proof (cases "update_found v (int i) (set_fields prm plen ty tlen) ps")
  case None
  with assms have "take i v \<notin> set (map param_name ps)"
    by (simp add: update_found_None)
  with None assms show ?thesis
    by (simp add: add_param_def add_name_def wf_param_def param_name_def)
next
  case (Some ps')
  have "take i v \<in> set (map param_name ps)"
    using Some assms update_found_None [of ps i v "set_fields prm plen ty tlen"] by auto
  with Some assms update_found_Some [OF Some] show ?thesis
    by (simp add: add_param_def add_name_def)
qed

lemma parm_names_Nil [simp]: "parm_names [] = []"
  by (simp add: parm_names_def)

lemma parm_names_Cons:
  "parm_names ((k, v) # l) =
     (if is_parm_key k \<and> CHR '':'' \<in> set v then takeWhile (\<lambda>c. c \<noteq> CHR '':'') v # parm_names l
      else parm_names l)"
  by (simp add: parm_names_def)

lemma plain_pairs_Nil [simp]: "plain_pairs [] = []"
  by (simp add: plain_pairs_def)

lemma plain_pairs_Cons:
  "plain_pairs ((k, v) # l) = (if is_parm_key k then plain_pairs l else (k, v) # plain_pairs l)"
  by (simp add: plain_pairs_def)

lemma info_loop_plain:
  "field cfg = None \<Longrightarrow> \<not> is_parm_key k \<Longrightarrow>
   info_loop cfg e ((k, v) # l) ps w = info_loop cfg e l ps (printf (plain_line cfg (k, v)) w)"
  by (simp add: is_parm_key_def plain_line_def)

text \<open>
  The loop in default mode, when no allocation fails: it runs to its end, the names of
  the list are the names of the well-formed parameter records added one by one, and the
  output is the lines of the other pairs.
\<close>

lemma info_loop_default:
  assumes "field cfg = None" and "\<forall>n. malloc_ok e n"
  shows "list_all wf_param ps \<Longrightarrow>
         \<exists>ps' w'. info_loop cfg e l ps w = (True, ps', w')
           \<and> list_all wf_param ps'
           \<and> map param_name ps' = fold add_name (parm_names l) (map param_name ps)
           \<and> stdout w' = stdout w @ concat (map (plain_line cfg) (plain_pairs l))"
proof (induction l arbitrary: ps w)
  case Nil
  then show ?case by simp
next
  case (Cons kv l)
  obtain k v where kv: "kv = (k, v)" by (cases kv)
  show ?case
  proof (cases "is_parm_key k")
    case False
    from Cons.IH [OF Cons.prems, of "printf (plain_line cfg (k, v)) w"] obtain ps' w' where
      "info_loop cfg e l ps (printf (plain_line cfg (k, v)) w) = (True, ps', w')"
      "list_all wf_param ps'"
      "map param_name ps' = fold add_name (parm_names l) (map param_name ps)"
      "stdout w' = stdout w @ plain_line cfg (k, v) @ concat (map (plain_line cfg) (plain_pairs l))"
      by auto
    with False assms(1) show ?thesis
      by (simp add: kv parm_names_Cons plain_pairs_Cons info_loop_plain del: info_loop.simps)
  next
    case True
    then have key: "k = ''parm'' \<or> k = ''parmtype''" by (simp add: is_parm_key_def)
    then have np: "k \<noteq> ''param''" by auto
    show ?thesis
    proof (cases "strchr v CHR '':''")
      case None
      then have "CHR '':'' \<notin> set v" by (simp add: strchr_None)
      with None True key assms(1)
        Cons.IH [OF Cons.prems, of "LOG (''Found invalid '' @ [DQ] @ k @ ''='' @ v @ [DQ]
          @ '': missing '' @ [SQ] @ '':'' @ [SQ, NL]) w"]
      show ?thesis
        by (simp add: kv parm_names_Cons plain_pairs_Cons)
    next
      case (Some i)
      from strchr_Some [OF Some]
      have i: "i \<le> length v" and tk: "take i v = takeWhile (\<lambda>x. x \<noteq> CHR '':'') v"
        and mem: "CHR '':'' \<in> set v" by simp_all
      from assms(2) have "malloc_ok e (mallocs w)" by simp
      from add_param_names [OF this Cons.prems i, of None 0 "Some (drop (i + 1) v)"
          "strlen (drop (i + 1) v)"]
      obtain ps1 w1 where
        ap: "add_param e v (int i) None 0 (Some (drop (i + 1) v)) (strlen (drop (i + 1) v)) ps w
               = (Some ps1, w1)"
        and wf1: "list_all wf_param ps1"
        and nm1: "map param_name ps1 = add_name (take i v) (map param_name ps)"
        and out1: "stdout w1 = stdout w" by blast
      from Cons.IH [OF wf1, of w1] obtain ps' w' where
        "info_loop cfg e l ps1 w1 = (True, ps', w')" "list_all wf_param ps'"
        "map param_name ps' = fold add_name (parm_names l) (map param_name ps1)"
        "stdout w' = stdout w1 @ concat (map (plain_line cfg) (plain_pairs l))" by blast
      with Some True key np assms(1) ap nm1 out1 tk mem show ?thesis
        by (simp add: kv parm_names_Cons plain_pairs_Cons)
    qed
  qed
qed

text \<open>Adding names one by one in front gives the first-seen order, reversed.\<close>

lemma fold_add_name:
  "fold add_name ns acc = rev (filter (\<lambda>n. n \<notin> set acc) (first_seen ns)) @ acc"
proof (induction ns arbitrary: acc)
  case Nil
  then show ?case by simp
next
  case (Cons x xs)
  show ?case
  proof (cases "x \<in> set acc")
    case True
    then have "filter (\<lambda>n. n \<notin> set acc) (filter (\<lambda>y. y \<noteq> x) (first_seen xs)) =
               filter (\<lambda>n. n \<notin> set acc) (first_seen xs)"
      by (auto intro: filter_cong)
    with True Cons.IH [of acc] show ?thesis
      by (simp add: add_name_def)
  next
    case False
    have "filter (\<lambda>n. n \<notin> set (x # acc)) (first_seen xs) =
          filter (\<lambda>n. n \<notin> set acc) (filter (\<lambda>y. y \<noteq> x) (first_seen xs))"
      by (auto intro: filter_cong)
    with False Cons.IH [of "x # acc"] show ?thesis
      by (simp add: add_name_def)
  qed
qed

lemma distinct_first_seen: "distinct (first_seen ns)"
  by (induction ns) auto

lemma set_first_seen: "set (first_seen ns) = set ns"
  by (induction ns) auto

lemma take_16_param_line: "take 16 (param_line sep p) = ''parm:           ''"
  by (simp add: param_line_def fmt_left_def split: option.splits)

text \<open>
  \<^verbatim>\<open>modinfo_do\<close> in default mode on a module whose pairs were retrieved, when no
  allocation fails.
\<close>

lemma modinfo_do_default:
  assumes "field cfg = None" and "\<forall>n. malloc_ok e n"
    and "kmod_module_get_info m = (err, l)" and "0 \<le> err"
  shows "map param_name
           (params_after cfg e l
              (printf (fmt_left 16 ''filename:'' @ kmod_module_get_path m @ [separator cfg]) w))
           = rev (first_seen (parm_names l))
         \<and> stdout (snd (modinfo_do cfg e m w)) =
             stdout w @ fmt_left 16 ''filename:'' @ kmod_module_get_path m @ [separator cfg]
               @ concat (map (plain_line cfg) (plain_pairs l))
               @ concat (map (param_line (separator cfg))
                   (params_after cfg e l
                      (printf (fmt_left 16 ''filename:'' @ kmod_module_get_path m
                         @ [separator cfg]) w)))"
proof -
  define w1 where
    "w1 = printf (fmt_left 16 ''filename:'' @ kmod_module_get_path m @ [separator cfg]) w"
  from info_loop_default [OF assms(1,2), of "[]" l w1] obtain ps' w' where
    loop: "info_loop cfg e l [] w1 = (True, ps', w')"
    and names: "map param_name ps' = fold add_name (parm_names l) []"
    and out: "stdout w' = stdout w1 @ concat (map (plain_line cfg) (plain_pairs l))"
    by auto
  from loop have pa: "params_after cfg e l w1 = ps'"
    by (simp add: params_after_def)
  have "modinfo_do cfg e m w = (err, print_params (separator cfg) ps' w')"
    using assms(1,3,4) loop by (simp add: modinfo_do_def w1_def)
  then have "stdout (snd (modinfo_do cfg e m w)) =
               stdout w' @ concat (map (param_line (separator cfg)) ps')"
    by (simp add: print_params_eq)
  with out pa names show ?thesis
    by (simp add: w1_def [symmetric] fold_add_name) (simp add: w1_def)
qed

lemma add_param_param_None:
  "add_param e v n None plen ty tlen ps w = (Some ps', w') \<Longrightarrow>
   list_all (\<lambda>p. param p = None) ps \<Longrightarrow> list_all (\<lambda>p. param p = None) ps'"
proof -
  have upd: "update_found v n (set_fields None plen ty tlen) qs = Some qs' \<Longrightarrow>
             list_all (\<lambda>p. param p = None) qs \<Longrightarrow> list_all (\<lambda>p. param p = None) qs'" for qs qs'
    by (induction qs arbitrary: qs') (auto split: if_splits)
  show "add_param e v n None plen ty tlen ps w = (Some ps', w') \<Longrightarrow>
        list_all (\<lambda>p. param p = None) ps \<Longrightarrow> list_all (\<lambda>p. param p = None) ps'"
    by (auto simp add: add_param_def split: option.splits if_splits dest: upd)
qed

text \<open>
  Inside the branch for the keys \<^verbatim>\<open>parm\<close> and \<^verbatim>\<open>parmtype\<close> the key is compared with
  \<^verbatim>\<open>param\<close>, which it never is: no entry ever gets a description.
\<close>

lemma info_loop_param_None:
  "field cfg = None \<Longrightarrow> list_all (\<lambda>p. param p = None) ps \<Longrightarrow>
   list_all (\<lambda>p. param p = None) (fst (snd (info_loop cfg e l ps w)))"
proof (induction l arbitrary: ps w)
  case Nil
  then show ?case by simp
next
  case (Cons kv l)
  obtain k v where kv: "kv = (k, v)" by (cases kv)
  show ?case
    using Cons.prems
    by (auto simp add: kv split: option.splits prod.splits intro!: Cons.IH
        dest: add_param_param_None)
qed

subsection \<open>Evaluating the examples\<close>

lemmas eval_defs =
  modinfo_do_def add_param_def set_fields_def name_matches_def printf_def LOG_def
  param_line_def fmt_left_def fmt_left_star_def fmt_prec_def fmt_prec_ptr_def strlen_def
  params_after_def param_name_def NL_def NUL_def

lemmas env_defs = example_env_def foo_ko_def two_ko_def bad_ko_def broken_ko_def multi_ko_def
  empty_world_def default_nl_def default_nul_def only_filename_def

lemmas status_defs = identifier_fails_def resolution_fails_def resolved_modules_def
  retrieval_fails_def EXIT_SUCCESS_def EXIT_FAILURE_def

subsection \<open>Default mode: what is stored and in which order\<close>

text \<open>
  C1, on the code. For the specification's example (\<^verbatim>\<open>author\<close>, then
  \<^verbatim>\<open>parm = debug:enable debug\<close>, then \<^verbatim>\<open>parmtype = debug:bool\<close>, newline separator, no
  filter) \<^verbatim>\<open>modinfo_do\<close> writes the filename line, the author line and then
  \<^verbatim>\<open>parm:           debug:bool\<close>: the text after the colon of the \<^verbatim>\<open>parm\<close> record was
  stored as the type and then overwritten, and no description was stored. The line the
  claim expects, \<^verbatim>\<open>parm:           debug enable debug (bool)\<close>, is not written; and an
  entry that had both fields would be printed without the blank after the name.
\<close>

theorem example_report_in_code:
  "modinfo_do default_nl example_env foo_ko empty_world =
     (3, \<lparr>stdout = ''filename:       /lib/modules/x/foo.ko'' @ [NL]
                     @ ''author:         A. One'' @ [NL]
                     @ ''parm:           debug:bool'' @ [NL],
          stderr = [], mallocs = 1\<rparr>)
   \<and> param_line NL
       \<lparr>name = ''debug:enable debug'', param = Some ''enable debug'', type = Some ''bool'',
        namelen = 5, paramlen = 12, typelen = 4\<rparr> =
       ''parm:           debugenable debug (bool)'' @ [NL]"
  by (simp add: eval_defs default_nl_def example_env_def foo_ko_def empty_world_def)

text \<open>
  C3, on the code. For the parameter \<^verbatim>\<open>debug\<close>, the \<^verbatim>\<open>parm\<close> record before the
  \<^verbatim>\<open>parmtype\<close> record ends in an entry with the type \<^verbatim>\<open>bool\<close>; the same two records in
  the other order end in an entry with the type \<^verbatim>\<open>enable debug\<close>. Both records write
  the same field, so the later one wins.
\<close>

theorem merge_depends_on_order:
  "params_after default_nl example_env (snd (kmod_module_get_info foo_ko)) empty_world =
     [\<lparr>name = ''debug:enable debug'', param = None, type = Some ''bool'',
       namelen = 5, paramlen = 0, typelen = 4\<rparr>]
   \<and> params_after default_nl example_env (snd (kmod_module_get_info foo_swapped_ko)) empty_world =
     [\<lparr>name = ''debug:bool'', param = None, type = Some ''enable debug'',
       namelen = 5, paramlen = 0, typelen = 12\<rparr>]"
  by (simp add: eval_defs default_nl_def example_env_def foo_ko_def foo_swapped_ko_def
      empty_world_def)

text \<open>
  C2 as stated fails. For the records \<^verbatim>\<open>parmtype = a:int\<close>, \<^verbatim>\<open>parmtype = b:int\<close> the
  first-seen order of the names is \<open>a\<close>, \<open>b\<close>, but the list holds \<open>b\<close> before \<open>a\<close>
  and the line of \<open>b\<close> is written before the line of \<open>a\<close>.
\<close>

theorem params_first_seen_counterexample:
  "first_seen (parm_names (snd (kmod_module_get_info two_ko))) = [''a'', ''b'']
   \<and> map param_name
       (params_after default_nl example_env (snd (kmod_module_get_info two_ko)) empty_world)
       = [''b'', ''a'']
   \<and> stdout (snd (modinfo_do default_nl example_env two_ko empty_world)) =
       ''filename:       /two.ko'' @ [NL] @ ''parm:           b:int'' @ [NL]
         @ ''parm:           a:int'' @ [NL]"
  by (simp add: eval_defs default_nl_def example_env_def two_ko_def empty_world_def
      parm_names_def is_parm_key_def)

text \<open>
  C2, amended. In default mode, for a module whose pairs were retrieved and when no
  allocation fails, the parameter list holds exactly one entry for each distinct name of
  a well-formed \<^verbatim>\<open>parm\<close> or \<^verbatim>\<open>parmtype\<close> record; a new entry is put in front of the
  list, so the names are in the reverse of first-seen order; and after the lines of the
  other pairs the list is written from its head, one line for each entry.
\<close>

theorem params_reverse_first_seen:
  assumes "field cfg = None" and "\<forall>n. malloc_ok e n"
    and "kmod_module_get_info m = (err, l)" and "0 \<le> err"
    and "w1 = printf (fmt_left 16 ''filename:'' @ kmod_module_get_path m @ [separator cfg]) w"
  shows "map param_name (params_after cfg e l w1) = rev (first_seen (parm_names l))
         \<and> distinct (map param_name (params_after cfg e l w1))
         \<and> set (map param_name (params_after cfg e l w1)) = set (parm_names l)
         \<and> stdout (snd (modinfo_do cfg e m w)) =
             stdout w1 @ concat (map (plain_line cfg) (plain_pairs l))
               @ concat (map (param_line (separator cfg)) (params_after cfg e l w1))"
proof -
  from modinfo_do_default [OF assms(1-4), of w] assms(5)
  have names: "map param_name (params_after cfg e l w1) = rev (first_seen (parm_names l))"
    and out: "stdout (snd (modinfo_do cfg e m w)) =
             stdout w1 @ concat (map (plain_line cfg) (plain_pairs l))
               @ concat (map (param_line (separator cfg)) (params_after cfg e l w1))"
    by simp_all
  from names have "distinct (map param_name (params_after cfg e l w1))"
    by (simp add: distinct_first_seen)
  moreover from names have "set (map param_name (params_after cfg e l w1)) = set (parm_names l)"
    by (simp add: set_first_seen)
  ultimately show ?thesis using names out by simp
qed

theorem params_reverse_first_seen_witness:
  "field default_nl = None \<and> (\<forall>n. malloc_ok example_env n)
   \<and> kmod_module_get_info multi_ko =
       (7, [(''license'', ''GPL''), (''parmtype'', ''a:int''), (''depends'', ''x''),
            (''parm'', ''b:desc''), (''parm'', ''nocolon''), (''parmtype'', ''b:uint''),
            (''depends'', ''y'')])
   \<and> map param_name
       (params_after default_nl example_env (snd (kmod_module_get_info multi_ko))
          (printf (''filename:       /multi.ko'' @ [NL]) empty_world)) = [''b'', ''a'']
   \<and> stdout (snd (modinfo_do default_nl example_env multi_ko empty_world)) =
       ''filename:       /multi.ko'' @ [NL] @ ''license:        GPL'' @ [NL]
         @ ''depends:        x'' @ [NL] @ ''depends:        y'' @ [NL]
         @ ''parm:           b:uint'' @ [NL] @ ''parm:           a:int'' @ [NL]"
  using params_reverse_first_seen [of default_nl example_env multi_ko 7
      "[(''license'', ''GPL''), (''parmtype'', ''a:int''), (''depends'', ''x''),
        (''parm'', ''b:desc''), (''parm'', ''nocolon''), (''parmtype'', ''b:uint''),
        (''depends'', ''y'')]"
      "printf (''filename:       /multi.ko'' @ [NL]) empty_world" empty_world]
  by (simp add: eval_defs default_nl_def example_env_def multi_ko_def empty_world_def
      parm_names_def is_parm_key_def plain_pairs_def plain_line_def)

subsection \<open>Default mode with the NUL separator\<close>

text \<open>
  C4 as stated fails. With the NUL separator and no filter, the report of the
  specification's example starts with the line of the module's path in the colon style,
  padded to 16 columns, and ends with the parameter line in the same style; only the
  \<^verbatim>\<open>author\<close> pair is written as \<^verbatim>\<open>key=value\<close>.
\<close>

theorem nul_mode_counterexample:
  "stdout (snd (modinfo_do default_nul example_env foo_ko empty_world)) =
     colon_padded_line NUL (''filename'', ''/lib/modules/x/foo.ko'')
       @ key_eq_line NUL (''author'', ''A. One'')
       @ colon_padded_line NUL (''parm'', ''debug:bool'')"
  by (simp add: eval_defs default_nul_def example_env_def foo_ko_def empty_world_def
      colon_padded_line_def key_eq_line_def)

text \<open>
  C4, amended. In default mode with the NUL separator, for a module whose pairs were
  retrieved and when no allocation fails, the output is the path line with the label
  \<^verbatim>\<open>filename:\<close> padded to 16 columns, then \<^verbatim>\<open>key=value\<close> and NUL for every pair whose key
  is neither \<^verbatim>\<open>parm\<close> nor \<^verbatim>\<open>parmtype\<close>, in source order, then the lines of the parameter
  list, each of which starts with the label \<^verbatim>\<open>parm:\<close> padded to 16 columns.
\<close>

theorem nul_mode_plain_pairs_key_eq:
  assumes "separator cfg = NUL" and "field cfg = None" and "\<forall>n. malloc_ok e n"
    and "kmod_module_get_info m = (err, l)" and "0 \<le> err"
    and "w1 = printf (''filename:       '' @ kmod_module_get_path m @ [NUL]) w"
  shows "stdout (snd (modinfo_do cfg e m w)) =
           stdout w @ ''filename:       '' @ kmod_module_get_path m @ [NUL]
             @ concat (map (key_eq_line NUL) (plain_pairs l))
             @ concat (map (param_line NUL) (params_after cfg e l w1))
         \<and> take 16 (param_line NUL p) = ''parm:           ''"
proof -
  have "plain_line cfg = key_eq_line NUL"
    using assms(1) by (simp add: plain_line_def key_eq_line_def fun_eq_iff)
  moreover have "fmt_left 16 ''filename:'' = ''filename:       ''"
    by (simp add: fmt_left_def)
  ultimately show ?thesis
    using modinfo_do_default [OF assms(2-5), of w] assms(1,6)
    by (simp add: take_16_param_line del: append.simps)
qed

theorem nul_mode_plain_pairs_key_eq_witness:
  "separator default_nul = NUL \<and> field default_nul = None \<and> (\<forall>n. malloc_ok example_env n)
   \<and> kmod_module_get_info multi_ko =
       (7, [(''license'', ''GPL''), (''parmtype'', ''a:int''), (''depends'', ''x''),
            (''parm'', ''b:desc''), (''parm'', ''nocolon''), (''parmtype'', ''b:uint''),
            (''depends'', ''y'')])
   \<and> stdout (snd (modinfo_do default_nul example_env multi_ko empty_world)) =
       ''filename:       /multi.ko'' @ [NUL] @ ''license=GPL'' @ [NUL]
         @ ''depends=x'' @ [NUL] @ ''depends=y'' @ [NUL]
         @ ''parm:           b:uint'' @ [NUL] @ ''parm:           a:int'' @ [NUL]"
  using nul_mode_plain_pairs_key_eq [of default_nul example_env multi_ko 7
      "[(''license'', ''GPL''), (''parmtype'', ''a:int''), (''depends'', ''x''),
        (''parm'', ''b:desc''), (''parm'', ''nocolon''), (''parmtype'', ''b:uint''),
        (''depends'', ''y'')]"
      "printf (''filename:       /multi.ko'' @ [NUL]) empty_world" empty_world]
  by (simp add: eval_defs default_nul_def example_env_def multi_ko_def empty_world_def
      plain_pairs_def is_parm_key_def key_eq_line_def)

subsection \<open>Malformed parameter records\<close>

lemma info_loop_malformed:
  assumes "field cfg = None" and "is_parm_key key" and "CHR '':'' \<notin> set val"
  shows "info_loop cfg e ((key, val) # l) params w =
           info_loop cfg e l params (w\<lparr>stderr := stderr w @ malformed_line (key, val)\<rparr>)"
proof -
  from assms(3) have "strchr val CHR '':'' = None"
    by (simp add: strchr_None)
  with assms(1,2) show ?thesis
    by (auto simp add: is_parm_key_def LOG_def malformed_line_def)
qed

lemma info_loop_append:
  "info_loop cfg e (l1 @ l2) ps w =
     (case info_loop cfg e l1 ps w of
        (True, ps1, w1) \<Rightarrow> info_loop cfg e l2 ps1 w1
      | (False, ps1, w1) \<Rightarrow> (False, ps1, w1))"
proof (induction l1 arbitrary: ps w)
  case Nil
  then show ?case by simp
next
  case (Cons kv l1)
  obtain k v where kv: "kv = (k, v)" by (cases kv)
  show ?case
    by (simp add: kv Cons.IH split: option.splits prod.splits)
qed

lemma add_param_stderr:
  "add_param e v n prm plen ty tlen ps w = (r, w') \<Longrightarrow>
   stderr w' = stderr w \<and>
   add_param e v n prm plen ty tlen ps (w\<lparr>stderr := s\<rparr>) = (r, w'\<lparr>stderr := s\<rparr>)"
  by (auto simp add: add_param_def split: option.splits if_splits)

lemma printf_stderr_update: "printf t (w\<lparr>stderr := s\<rparr>) = (printf t w)\<lparr>stderr := s\<rparr>"
  by (simp add: printf_def)

lemma LOG_stderr_update: "LOG t (w\<lparr>stderr := s\<rparr>) = (LOG t w)\<lparr>stderr := s @ ''ERROR: '' @ t\<rparr>"
  by (simp add: LOG_def)

lemma info_loop_wellformed:
  assumes "field cfg = None" and "is_parm_key k" and "strchr v CHR '':'' = Some i"
  shows "info_loop cfg e ((k, v) # l) ps w =
           (case add_param e v (int i) None 0 (Some (drop (i + 1) v)) (strlen (drop (i + 1) v)) ps w of
              (None, w') \<Rightarrow> (False, ps, LOG (''Out of memory!'' @ [NL]) w')
            | (Some ps', w') \<Rightarrow> info_loop cfg e l ps' w')"
proof -
  from assms(2) have "k \<noteq> ''param''" by (auto simp add: is_parm_key_def)
  with assms show ?thesis
    by (auto simp add: is_parm_key_def)
qed

text \<open>
  In default mode the loop only appends to the error stream: what it appends, and all
  the rest of its result, do not depend on what the stream held before.
\<close>

lemma info_loop_stderr:
  assumes "field cfg = None"
  shows "\<exists>d ok ps' w'. \<forall>s. info_loop cfg e l ps (w\<lparr>stderr := s\<rparr>) = (ok, ps', w'\<lparr>stderr := s @ d\<rparr>)"
proof (induction l arbitrary: ps w)
  case Nil
  have "\<forall>s. info_loop cfg e [] ps (w\<lparr>stderr := s\<rparr>) = (True, ps, w\<lparr>stderr := s @ []\<rparr>)"
    by simp
  then show ?case by blast
next
  case (Cons kv l)
  obtain k v where kv: "kv = (k, v)" by (cases kv)
  show ?case
  proof (cases "is_parm_key k")
    case False
    from Cons.IH [of ps "printf (plain_line cfg (k, v)) w"] obtain d ok ps' w' where
      ih: "\<forall>s. info_loop cfg e l ps ((printf (plain_line cfg (k, v)) w)\<lparr>stderr := s\<rparr>)
             = (ok, ps', w'\<lparr>stderr := s @ d\<rparr>)" by blast
    have "\<forall>s. info_loop cfg e (kv # l) ps (w\<lparr>stderr := s\<rparr>) = (ok, ps', w'\<lparr>stderr := s @ d\<rparr>)"
      using ih False assms
      by (simp add: kv info_loop_plain printf_stderr_update del: info_loop.simps)
    then show ?thesis by blast
  next
    case True
    show ?thesis
    proof (cases "strchr v CHR '':''")
      case None
      then have nc: "CHR '':'' \<notin> set v" by (simp add: strchr_None)
      from Cons.IH [of ps w] obtain d ok ps' w' where
        ih: "\<forall>s. info_loop cfg e l ps (w\<lparr>stderr := s\<rparr>) = (ok, ps', w'\<lparr>stderr := s @ d\<rparr>)"
        by blast
      have "\<forall>s. info_loop cfg e (kv # l) ps (w\<lparr>stderr := s\<rparr>)
              = (ok, ps', w'\<lparr>stderr := s @ (malformed_line (k, v) @ d)\<rparr>)"
        using ih by (simp add: kv info_loop_malformed [OF assms True nc] del: info_loop.simps)
      then show ?thesis by blast
    next
      case (Some i)
      obtain r w1 where ap:
        "add_param e v (int i) None 0 (Some (drop (i + 1) v)) (strlen (drop (i + 1) v)) ps w
           = (r, w1)"
        by (cases "add_param e v (int i) None 0 (Some (drop (i + 1) v)) (strlen (drop (i + 1) v)) ps w")
      note aps = add_param_stderr [OF ap]
      show ?thesis
      proof (cases r)
        case None
        have "\<forall>s. info_loop cfg e (kv # l) ps (w\<lparr>stderr := s\<rparr>)
                = (False, ps, w1\<lparr>stderr := s @ (''ERROR: '' @ ''Out of memory!'' @ [NL])\<rparr>)"
          using aps None
          by (simp add: kv info_loop_wellformed [OF assms True Some] LOG_def del: info_loop.simps)
        then show ?thesis by blast
      next
        case (Some ps1)
        from Cons.IH [of ps1 w1] obtain d ok ps' w' where
          ih: "\<forall>s. info_loop cfg e l ps1 (w1\<lparr>stderr := s\<rparr>) = (ok, ps', w'\<lparr>stderr := s @ d\<rparr>)"
          by blast
        have "\<forall>s. info_loop cfg e (kv # l) ps (w\<lparr>stderr := s\<rparr>) = (ok, ps', w'\<lparr>stderr := s @ d\<rparr>)"
          using aps Some ih
          by (simp add: kv info_loop_wellformed [OF assms True \<open>strchr v CHR '':'' = Some i\<close>]
              del: info_loop.simps)
        then show ?thesis by blast
      qed
    qed
  qed
qed

text \<open>
  Appending to the error stream before the loop appends the same bytes in front of what
  the loop writes there.
\<close>

lemma info_loop_stderr_append:
  assumes "field cfg = None" and "info_loop cfg e l ps w = (ok, ps', w')"
  shows "info_loop cfg e l ps (w\<lparr>stderr := stderr w @ t\<rparr>) =
           (ok, ps', w'\<lparr>stderr := stderr w @ t @ drop (length (stderr w)) (stderr w')\<rparr>)"
proof -
  from info_loop_stderr [OF assms(1), of e l ps w] obtain d ok0 ps0 w0 where
    all: "\<forall>s. info_loop cfg e l ps (w\<lparr>stderr := s\<rparr>) = (ok0, ps0, w0\<lparr>stderr := s @ d\<rparr>)"
    by blast
  from all have "info_loop cfg e l ps (w\<lparr>stderr := stderr w\<rparr>) = (ok0, ps0, w0\<lparr>stderr := stderr w @ d\<rparr>)"
    by blast
  with assms(2) have eq: "ok = ok0" "ps' = ps0" "w' = w0\<lparr>stderr := stderr w @ d\<rparr>"
    by simp_all
  from all have "info_loop cfg e l ps (w\<lparr>stderr := stderr w @ t\<rparr>)
                   = (ok0, ps0, w0\<lparr>stderr := (stderr w @ t) @ d\<rparr>)"
    by blast
  with eq show ?thesis by simp
qed

lemma malformed_pairs_Nil [simp]: "malformed_pairs [] = []"
  by (simp add: malformed_pairs_def)

lemma malformed_pairs_Cons:
  "malformed_pairs ((k, v) # l) =
     (if is_parm_key k \<and> CHR '':'' \<notin> set v then (k, v) # malformed_pairs l
      else malformed_pairs l)"
  by (simp add: malformed_pairs_def)

text \<open>
  In default mode, when no allocation fails, the loop leaves on the error stream one
  diagnostic for each malformed parameter record, in source order, and nothing else.
\<close>

lemma info_loop_default_stderr:
  assumes "field cfg = None" and "\<forall>n. malloc_ok e n"
  shows "list_all wf_param ps \<Longrightarrow>
         stderr (snd (snd (info_loop cfg e l ps w))) =
           stderr w @ concat (map malformed_line (malformed_pairs l))"
proof (induction l arbitrary: ps w)
  case Nil
  then show ?case by simp
next
  case (Cons kv l)
  obtain k v where kv: "kv = (k, v)" by (cases kv)
  show ?case
  proof (cases "is_parm_key k")
    case False
    with Cons.IH [OF Cons.prems, of "printf (plain_line cfg (k, v)) w"] assms(1) show ?thesis
      by (simp add: kv info_loop_plain malformed_pairs_Cons del: info_loop.simps)
  next
    case True
    show ?thesis
    proof (cases "strchr v CHR '':''")
      case None
      then have nc: "CHR '':'' \<notin> set v" by (simp add: strchr_None)
      with True
        Cons.IH [OF Cons.prems, of "w\<lparr>stderr := stderr w @ malformed_line (k, v)\<rparr>"]
      show ?thesis
        by (simp add: kv info_loop_malformed [OF assms(1) True nc] malformed_pairs_Cons
            del: info_loop.simps)
    next
      case (Some i)
      from strchr_Some [OF Some] have i: "i \<le> length v" and mem: "CHR '':'' \<in> set v"
        by simp_all
      from assms(2) have "malloc_ok e (mallocs w)" by simp
      from add_param_names [OF this Cons.prems i, of None 0 "Some (drop (i + 1) v)"
          "strlen (drop (i + 1) v)"]
      obtain ps1 w1 where
        ap: "add_param e v (int i) None 0 (Some (drop (i + 1) v)) (strlen (drop (i + 1) v)) ps w
               = (Some ps1, w1)"
        and wf1: "list_all wf_param ps1" and err1: "stderr w1 = stderr w" by blast
      from Cons.IH [OF wf1, of w1] ap err1 mem show ?thesis
        by (simp add: kv info_loop_wellformed [OF assms(1) True Some] malformed_pairs_Cons
            del: info_loop.simps)
    qed
  qed
qed

text \<open>
  C6. In default mode, take a pair with key \<^verbatim>\<open>parm\<close> or \<^verbatim>\<open>parmtype\<close> whose value has no
  colon. Processed alone, it leaves the parameter list, the output and the allocation
  count as they were and appends its diagnostic to the error stream. Inside a sequence,
  when the loop gets through the pairs before it, the pairs after it are processed from
  the very parameter list and state the loop had reached: the result is the one they
  give there, with the diagnostic put on the error stream between what was written
  before and what is written after. When moreover no allocation fails, the loop started
  on the empty list runs to its end, the names in the list are those of the well-formed
  records only, the output is the lines of the other pairs, and the error stream gets
  the diagnostics of the malformed records in source order, this one among them.
\<close>

theorem malformed_record_skipped:
  assumes "field cfg = None" and "is_parm_key key" and "CHR '':'' \<notin> set val"
  shows "info_loop cfg e [(key, val)] params w =
           (True, params, w\<lparr>stderr := stderr w @ malformed_line (key, val)\<rparr>)
         \<and> (info_loop cfg e l1 params w = (True, ps1, w1) \<longrightarrow>
            info_loop cfg e l2 ps1 w1 = (ok2, ps2, w2) \<longrightarrow>
            info_loop cfg e (l1 @ (key, val) # l2) params w =
              (ok2, ps2,
               w2\<lparr>stderr := stderr w1 @ malformed_line (key, val)
                     @ drop (length (stderr w1)) (stderr w2)\<rparr>))
         \<and> ((\<forall>n. malloc_ok e n) \<longrightarrow>
            fst (info_loop cfg e (l1 @ (key, val) # l2) [] w)
            \<and> map param_name (params_after cfg e (l1 @ (key, val) # l2) w) =
                rev (first_seen (parm_names (l1 @ l2)))
            \<and> stdout (snd (snd (info_loop cfg e (l1 @ (key, val) # l2) [] w))) =
                stdout w @ concat (map (plain_line cfg) (plain_pairs (l1 @ l2)))
            \<and> stderr (snd (snd (info_loop cfg e (l1 @ (key, val) # l2) [] w))) =
                stderr w @ concat (map malformed_line (malformed_pairs l1))
                  @ malformed_line (key, val)
                  @ concat (map malformed_line (malformed_pairs l2)))"
proof (intro conjI impI)
  show "info_loop cfg e [(key, val)] params w =
          (True, params, w\<lparr>stderr := stderr w @ malformed_line (key, val)\<rparr>)"
    by (simp add: info_loop_malformed [OF assms] del: info_loop.simps) simp
next
  assume before: "info_loop cfg e l1 params w = (True, ps1, w1)"
    and after: "info_loop cfg e l2 ps1 w1 = (ok2, ps2, w2)"
  from before have "info_loop cfg e (l1 @ (key, val) # l2) params w =
                      info_loop cfg e ((key, val) # l2) ps1 w1"
    by (simp add: info_loop_append del: info_loop.simps)
  also have "\<dots> = info_loop cfg e l2 ps1 (w1\<lparr>stderr := stderr w1 @ malformed_line (key, val)\<rparr>)"
    by (rule info_loop_malformed [OF assms])
  also have "\<dots> = (ok2, ps2,
               w2\<lparr>stderr := stderr w1 @ malformed_line (key, val)
                     @ drop (length (stderr w1)) (stderr w2)\<rparr>)"
    by (rule info_loop_stderr_append [OF assms(1) after])
  finally show "info_loop cfg e (l1 @ (key, val) # l2) params w =
              (ok2, ps2,
               w2\<lparr>stderr := stderr w1 @ malformed_line (key, val)
                     @ drop (length (stderr w1)) (stderr w2)\<rparr>)" .
next
  assume mal: "\<forall>n. malloc_ok e n"
  let ?l = "l1 @ (key, val) # l2"
  have pn: "parm_names ?l = parm_names (l1 @ l2)"
    using assms(3) by (simp add: parm_names_def)
  have pp: "plain_pairs ?l = plain_pairs (l1 @ l2)"
    using assms(2) by (simp add: plain_pairs_def)
  have mp: "malformed_pairs ?l = malformed_pairs l1 @ (key, val) # malformed_pairs l2"
    using assms(2,3) by (simp add: malformed_pairs_def)
  from info_loop_default [OF assms(1) mal, of "[]" ?l w] obtain ps' w' where
    loop: "info_loop cfg e ?l [] w = (True, ps', w')"
    and names: "map param_name ps' = fold add_name (parm_names ?l) []"
    and out: "stdout w' = stdout w @ concat (map (plain_line cfg) (plain_pairs ?l))"
    by auto
  from loop show "fst (info_loop cfg e ?l [] w)" by simp
  from loop names pn show "map param_name (params_after cfg e ?l w) =
      rev (first_seen (parm_names (l1 @ l2)))"
    by (simp add: params_after_def fold_add_name)
  from loop out pp show "stdout (snd (snd (info_loop cfg e ?l [] w))) =
      stdout w @ concat (map (plain_line cfg) (plain_pairs (l1 @ l2)))"
    by simp
  from info_loop_default_stderr [OF assms(1) mal, of "[]" ?l w] mp
  show "stderr (snd (snd (info_loop cfg e ?l [] w))) =
      stderr w @ concat (map malformed_line (malformed_pairs l1))
        @ malformed_line (key, val)
        @ concat (map malformed_line (malformed_pairs l2))"
    by simp
qed

theorem malformed_record_skipped_witness:
  "field default_nl = None \<and> is_parm_key ''parm'' \<and> CHR '':'' \<notin> set ''nocolon''
   \<and> (\<forall>n. malloc_ok example_env n)
   \<and> info_loop default_nl example_env
        [(''license'', ''GPL''), (''parmtype'', ''a:int''), (''depends'', ''x''),
         (''parm'', ''b:desc'')] [] empty_world =
       (True,
        [\<lparr>name = ''b:desc'', param = None, type = Some ''desc'',
          namelen = 1, paramlen = 0, typelen = 4\<rparr>,
         \<lparr>name = ''a:int'', param = None, type = Some ''int'',
          namelen = 1, paramlen = 0, typelen = 3\<rparr>],
        \<lparr>stdout = ''license:        GPL'' @ [NL] @ ''depends:        x'' @ [NL],
         stderr = [], mallocs = 2\<rparr>)
   \<and> info_loop default_nl example_env [(''parmtype'', ''b:uint''), (''depends'', ''y'')]
        [\<lparr>name = ''b:desc'', param = None, type = Some ''desc'',
          namelen = 1, paramlen = 0, typelen = 4\<rparr>,
         \<lparr>name = ''a:int'', param = None, type = Some ''int'',
          namelen = 1, paramlen = 0, typelen = 3\<rparr>]
        \<lparr>stdout = ''license:        GPL'' @ [NL] @ ''depends:        x'' @ [NL],
         stderr = [], mallocs = 2\<rparr> =
       (True,
        [\<lparr>name = ''b:desc'', param = None, type = Some ''uint'',
          namelen = 1, paramlen = 0, typelen = 4\<rparr>,
         \<lparr>name = ''a:int'', param = None, type = Some ''int'',
          namelen = 1, paramlen = 0, typelen = 3\<rparr>],
        \<lparr>stdout = ''license:        GPL'' @ [NL] @ ''depends:        x'' @ [NL]
                   @ ''depends:        y'' @ [NL],
         stderr = [], mallocs = 2\<rparr>)
   \<and> info_loop default_nl example_env (snd (kmod_module_get_info multi_ko)) [] empty_world =
       (True,
        [\<lparr>name = ''b:desc'', param = None, type = Some ''uint'',
          namelen = 1, paramlen = 0, typelen = 4\<rparr>,
         \<lparr>name = ''a:int'', param = None, type = Some ''int'',
          namelen = 1, paramlen = 0, typelen = 3\<rparr>],
        \<lparr>stdout = ''license:        GPL'' @ [NL] @ ''depends:        x'' @ [NL]
                   @ ''depends:        y'' @ [NL],
         stderr = ''ERROR: Found invalid '' @ [DQ] @ ''parm=nocolon'' @ [DQ]
                    @ '': missing '' @ [SQ] @ '':'' @ [SQ, NL],
         mallocs = 2\<rparr>)"
  using malformed_record_skipped [where cfg = default_nl and e = example_env
      and key = "''parm''" and val = "''nocolon''" and params = "[]" and w = empty_world
      and ?l1.0 = "[(''license'', ''GPL''), (''parmtype'', ''a:int''), (''depends'', ''x''),
                    (''parm'', ''b:desc'')]"
      and ?l2.0 = "[(''parmtype'', ''b:uint''), (''depends'', ''y'')]"
      and ?ps1.0 = "[\<lparr>name = ''b:desc'', param = None, type = Some ''desc'',
                       namelen = 1, paramlen = 0, typelen = 4\<rparr>,
                     \<lparr>name = ''a:int'', param = None, type = Some ''int'',
                       namelen = 1, paramlen = 0, typelen = 3\<rparr>]"
      and ?w1.0 = "\<lparr>stdout = ''license:        GPL'' @ [NL] @ ''depends:        x'' @ [NL],
                    stderr = [], mallocs = 2\<rparr>"
      and ?ok2.0 = True
      and ?ps2.0 = "[\<lparr>name = ''b:desc'', param = None, type = Some ''uint'',
                       namelen = 1, paramlen = 0, typelen = 4\<rparr>,
                     \<lparr>name = ''a:int'', param = None, type = Some ''int'',
                       namelen = 1, paramlen = 0, typelen = 3\<rparr>]"
      and ?w2.0 = "\<lparr>stdout = ''license:        GPL'' @ [NL] @ ''depends:        x'' @ [NL]
                              @ ''depends:        y'' @ [NL],
                    stderr = [], mallocs = 2\<rparr>"]
  by (simp add: eval_defs env_defs is_parm_key_def malformed_line_def)

subsection \<open>The exit status\<close>

text \<open>
  The value \<^verbatim>\<open>modinfo_do\<close> returns is negative exactly when it asked for the pairs and
  could not get them.
\<close>

lemma modinfo_do_status: "fst (modinfo_do cfg e m w) < 0 \<longleftrightarrow> retrieval_fails cfg m"
  by (auto simp add: modinfo_do_def retrieval_fails_def Let_def split: prod.splits bool.splits)

lemma alias_loop_status:
  "fst (alias_loop cfg e ms err w) < 0 \<longleftrightarrow> err < 0 \<or> list_ex (retrieval_fails cfg) ms"
proof (induction ms arbitrary: err w)
  case Nil
  then show ?case by simp
next
  case (Cons m ms)
  obtain r w' where r: "modinfo_do cfg e m w = (r, w')" by (cases "modinfo_do cfg e m w")
  with modinfo_do_status [of cfg e m w] have "r < 0 \<longleftrightarrow> retrieval_fails cfg m" by simp
  with r Cons.IH show ?case by auto
qed

lemma modinfo_path_do_status:
  "fst (modinfo_path_do cfg e nm w) < 0 \<longleftrightarrow>
     fst (kmod_module_new_from_path e nm) < 0
     \<or> retrieval_fails cfg (snd (kmod_module_new_from_path e nm))"
  by (auto simp add: modinfo_path_do_def modinfo_do_status split: prod.splits)

lemma modinfo_alias_do_status:
  "fst (modinfo_alias_do cfg e nm w) < 0 \<longleftrightarrow>
     fst (kmod_module_new_from_lookup e nm) < 0
     \<or> list_ex (retrieval_fails cfg) (snd (kmod_module_new_from_lookup e nm))"
  by (auto simp add: modinfo_alias_do_def alias_loop_status split: prod.splits)

lemma args_loop_status:
  "fst (args_loop cfg e args err w) < 0 \<longleftrightarrow> err < 0 \<or> list_ex (identifier_fails cfg e) args"
proof (induction args arbitrary: err w)
  case Nil
  then show ?case by simp
next
  case (Cons nm args)
  define step where
    "step = (if is_regular_file e nm then modinfo_path_do cfg e nm w
             else modinfo_alias_do cfg e nm w)"
  obtain r w' where r: "step = (r, w')" by (cases step)
  have "fst step < 0 \<longleftrightarrow> identifier_fails cfg e nm"
    using modinfo_path_do_status [of cfg e nm w] modinfo_alias_do_status [of cfg e nm w]
    by (simp add: step_def identifier_fails_def resolution_fails_def resolved_modules_def)
  with r have "r < 0 \<longleftrightarrow> identifier_fails cfg e nm" by simp
  moreover have "args_loop cfg e (nm # args) err w =
                 args_loop cfg e args (if r < 0 then r else err) w'"
    using r by (simp add: step_def)
  ultimately show ?case using Cons.IH by auto
qed

lemma main_modules_status:
  "fst (main_modules cfg e args w) =
     (if list_ex (identifier_fails cfg e) args then EXIT_FAILURE else EXIT_SUCCESS)"
  using args_loop_status [of cfg e args 0 w]
  by (auto simp add: main_modules_def split: prod.splits)

text \<open>The state the loop over the identifiers ends in does not depend on \<open>err\<close>.\<close>

lemma args_loop_world:
  "snd (args_loop cfg e args err w) = snd (args_loop cfg e args err' w)"
  by (induction args arbitrary: err err' w) (auto split: prod.splits)

lemma args_loop_append:
  "snd (args_loop cfg e (as @ bs) err w) =
   snd (args_loop cfg e bs err' (snd (args_loop cfg e as err w)))"
proof (induction as arbitrary: err w)
  case Nil
  show ?case using args_loop_world [of cfg e bs err w err'] by simp
next
  case (Cons a as)
  then show ?case by (simp split: prod.splits)
qed

lemma main_modules_append:
  "snd (main_modules cfg e (as @ bs) w) =
   snd (main_modules cfg e bs (snd (main_modules cfg e as w)))"
proof -
  have "snd (main_modules cfg e args v) = snd (args_loop cfg e args 0 v)" for args v
    by (simp add: main_modules_def split: prod.splits)
  with args_loop_append [of cfg e as bs 0 w 0] show ?thesis by simp
qed

text \<open>
  C5 as stated fails. A module with a malformed parameter record, processed in default
  mode, leaves a diagnostic on the error stream, and the exit status is
  \<^verbatim>\<open>EXIT_SUCCESS\<close>.
\<close>

theorem exit_status_counterexample:
  "main_modules default_nl example_env [''bad''] empty_world =
     (EXIT_SUCCESS,
      \<lparr>stdout = ''filename:       /bad.ko'' @ [NL],
       stderr = ''ERROR: Found invalid '' @ [DQ] @ ''parm=bad-no-colon'' @ [DQ]
                  @ '': missing '' @ [SQ] @ '':'' @ [SQ, NL],
       mallocs = 0\<rparr>)"
  by (simp add: main_modules_def modinfo_alias_do_def eval_defs env_defs)

text \<open>
  When \<^verbatim>\<open>malloc\<close> fails, \<^verbatim>\<open>modinfo_do\<close> reports it, writes no parameter line, and
  returns the non-negative value the retrieval returned.
\<close>

lemma out_of_memory_report:
  "modinfo_do default_nl no_memory_env foo_ko empty_world =
     (3, \<lparr>stdout = ''filename:       /lib/modules/x/foo.ko'' @ [NL]
                     @ ''author:         A. One'' @ [NL],
          stderr = ''ERROR: Out of memory!'' @ [NL], mallocs = 1\<rparr>)"
  by (simp add: eval_defs env_defs no_memory_env_def)

text \<open>
  C5, amended. When no allocation fails, the exit status is \<^verbatim>\<open>EXIT_FAILURE\<close> if for
  some identifier the resolution returned a negative value or the retrieval of the
  metadata of a module it resolved to was called and returned a negative value, and
  \<^verbatim>\<open>EXIT_SUCCESS\<close> otherwise; malformed parameter records play no part. Every
  identifier is processed: the state after a sequence of identifiers is the state its
  second part reaches from the state the first part ended in, whatever the first part
  returned.
\<close>

theorem exit_status_aggregates:
  assumes "\<forall>n. malloc_ok e n"
  shows "fst (main_modules cfg e (as @ bs) w) =
           (if list_ex (identifier_fails cfg e) (as @ bs) then EXIT_FAILURE else EXIT_SUCCESS)
         \<and> EXIT_FAILURE \<noteq> EXIT_SUCCESS
         \<and> snd (main_modules cfg e (as @ bs) w) =
             snd (main_modules cfg e bs (snd (main_modules cfg e as w)))"
  using main_modules_status [of cfg e "as @ bs" w] main_modules_append [of cfg e as bs w]
  by (simp add: EXIT_SUCCESS_def EXIT_FAILURE_def)

theorem exit_status_aggregates_witness:
  "(\<forall>n. malloc_ok example_env n)
   \<and> fst (main_modules default_nl example_env ([''broken''] @ [''nope'', ''two'']) empty_world)
       = EXIT_FAILURE
   \<and> fst (main_modules default_nl example_env ([''two''] @ [''bad'']) empty_world) = EXIT_SUCCESS
   \<and> stdout (snd (main_modules default_nl example_env ([''broken''] @ [''nope'', ''two''])
        empty_world)) =
       ''filename:       /broken.ko'' @ [NL] @ ''filename:       /two.ko'' @ [NL]
         @ ''parm:           b:int'' @ [NL] @ ''parm:           a:int'' @ [NL]"
  using exit_status_aggregates [of example_env default_nl "[''broken'']" "[''nope'', ''two'']"
      empty_world]
    exit_status_aggregates [of example_env default_nl "[''two'']" "[''bad'']" empty_world]
  by (simp add: status_defs env_defs main_modules_def modinfo_alias_do_def eval_defs)

text \<open>
  C9. With the filter \<^verbatim>\<open>filename\<close>, whatever the retrieval of the metadata would return
  for the module (a negative value included), \<^verbatim>\<open>modinfo_do\<close> returns 0 and writes the path
  line and nothing else; and the exit status is \<^verbatim>\<open>EXIT_FAILURE\<close> only if the resolution of
  some identifier returned a negative value.
\<close>

theorem filename_filter_skips_retrieval:
  assumes "field cfg = Some ''filename''"
  shows "modinfo_do cfg e (m\<lparr>kmod_module_get_info := i\<rparr>) w =
           (0, printf (kmod_module_get_path m @ [separator cfg]) w)
         \<and> fst (main_modules cfg e args w) =
             (if list_ex (resolution_fails e) args then EXIT_FAILURE else EXIT_SUCCESS)"
proof -
  from assms have "identifier_fails cfg e = resolution_fails e"
    by (simp add: identifier_fails_def retrieval_fails_def list_ex_iff fun_eq_iff)
  with main_modules_status [of cfg e args w] assms show ?thesis
    by (simp add: modinfo_do_def)
qed

theorem filename_filter_skips_retrieval_witness:
  "field only_filename = Some ''filename''
   \<and> fst (kmod_module_get_info broken_ko) < 0
   \<and> modinfo_do only_filename example_env broken_ko empty_world =
       (0, \<lparr>stdout = ''/broken.ko'' @ [NL], stderr = [], mallocs = 0\<rparr>)
   \<and> fst (main_modules only_filename example_env [''broken''] empty_world) = EXIT_SUCCESS"
  using filename_filter_skips_retrieval [where cfg = only_filename and e = example_env
      and m = broken_ko and i = "(- 2, [])" and w = empty_world and args = "[''broken'']"]
  by (simp add: status_defs env_defs printf_def)

end
